theory Spec2Isabelle
  imports Main "HOL-Library.Sublist"
begin

section \<open>The data model of \<^verbatim>\<open>src/src/services/api.ts\<close>\<close>

text \<open>
  Modelled from the spec: the interfaces \<^verbatim>\<open>Collection\<close>, \<^verbatim>\<open>CollectionFull\<close>,
  \<^verbatim>\<open>HttpRequest\<close> and \<^verbatim>\<open>Environment\<close> are imported by \<^verbatim>\<open>api.ts\<close> from
  \<^verbatim>\<open>../types\<close>, a file that is not among the sources. The records below have the
  fields of the object literals that \<^verbatim>\<open>api.ts\<close> builds for these types and of the data
  model of the spec (section 3). A JavaScript object whose keys are data (\<^verbatim>\<open>headers\<close>,
  \<^verbatim>\<open>variables\<close>, \<^verbatim>\<open>pathVariables\<close>) is an association list in insertion order; an
  optional field is an \<open>option\<close>. The field \<^verbatim>\<open>_id\<close> is written \<open>id'\<close>, \<^verbatim>\<open>size\<close> is
  \<open>size'\<close> and \<^verbatim>\<open>method\<close> is \<open>method'\<close>. Strings are HOL strings, so the model covers
  the 8-bit characters; the mock data is ASCII throughout.
\<close>

record Collection =
  id' :: string
  name :: string
  description :: string
  size' :: nat
  createdAt :: string

record HttpRequest =
  id' :: string
  collectionId :: string
  name :: string
  method' :: string
  url :: string
  headers :: "(string \<times> string) list"
  body :: string
  bodyType :: string
  preScript :: string
  postScript :: string
  tests :: string
  pathVariables :: "(string \<times> string) list option"
  createdAt :: string
  updatedAt :: string

record CollectionFull =
  id' :: string
  name :: string
  description :: string
  requests :: "HttpRequest list"
  createdAt :: string

record Environment =
  id' :: string
  name :: string
  variables :: "(string \<times> string) list"
  isActive :: bool
  createdAt :: string
  updatedAt :: "string option"

text \<open>
  \<^verbatim>\<open>Omit<Collection, "_id" | "size" | "createdAt">\<close>, the argument of
  \<^verbatim>\<open>createCollection\<close>.
\<close>

record CollectionOmit =
  name :: string
  description :: string

text \<open>
  \<^verbatim>\<open>Omit<Environment, "_id" | "createdAt" | "updatedAt">\<close>, the argument of
  \<^verbatim>\<open>createEnvironment\<close>.
\<close>

record EnvironmentOmit =
  name :: string
  variables :: "(string \<times> string) list"
  isActive :: bool

text \<open>
  \<^verbatim>\<open>Partial<Collection>\<close> and \<^verbatim>\<open>Partial<Environment>\<close>: every field may be absent.
  \<open>None\<close> is a key the object does not have, \<open>Some v\<close> a key it has with the value
  \<open>v\<close> of the field's declared type. (A key that is present with the value
  \<^verbatim>\<open>undefined\<close> is not modelled: the result type of the methods has no such field.)
\<close>

record CollectionPartial =
  id' :: "string option"
  name :: "string option"
  description :: "string option"
  size' :: "nat option"
  createdAt :: "string option"

record EnvironmentPartial =
  id' :: "string option"
  name :: "string option"
  variables :: "(string \<times> string) list option"
  isActive :: "bool option"
  createdAt :: "string option"
  updatedAt :: "string option"

section \<open>Errors, the clock and the external \<^verbatim>\<open>fetch\<close>\<close>

text \<open>
  A JavaScript \<^verbatim>\<open>Error\<close> with its message. An \<^verbatim>\<open>async\<close> method that throws returns a
  rejected promise: the model returns \<open>Inl\<close> of the error, and \<open>Inr\<close> of the value the
  promise resolves to.
\<close>

datatype error = Error string

text \<open>
  What one \<^verbatim>\<open>await fetch(...)\<close> gives: the promise rejects (\<open>Inl\<close>), or resolves to a
  response with its \<^verbatim>\<open>ok\<close> flag, its \<^verbatim>\<open>status\<close> and the outcome of
  \<^verbatim>\<open>await response.json()\<close>, which rejects or gives the parsed body.
\<close>

text \<open>
  The parsed body is whatever JSON the server sent: TypeScript declares a type for it and
  checks nothing at run time. \<open>Declared v\<close> is a body that is a value \<open>v\<close> of the type the
  method declares for its result; \<open>Undeclared j\<close> is a body \<open>j\<close> that is no value of that
  type, \<^verbatim>\<open>null\<close> for one. The text of a number is kept as it was sent.
\<close>

datatype jsonValue =
    JsonNull
  | JsonBool bool
  | JsonNumber string
  | JsonString string
  | JsonArray "jsonValue list"
  | JsonObject "(string \<times> jsonValue) list"

datatype 'a body = Declared 'a | Undeclared jsonValue

datatype 'a response = Response (ok: bool) (status: nat) (json: "error + 'a body")

type_synonym 'a fetch = "error + 'a response"

text \<open>
  The two readings of the clock that \<^verbatim>\<open>api.ts\<close> takes: \<^verbatim>\<open>Date.now().toString()\<close> and
  \<^verbatim>\<open>new Date().toISOString()\<close>.
\<close>

record clock =
  now :: string
  toISOString :: string

text \<open>The decimal digits of a number, as a template literal prints it.\<close>

definition digit :: "nat \<Rightarrow> char" where
  "digit d = ''0123456789'' ! d"

function decimal :: "nat \<Rightarrow> string" where
  "decimal n = (if n < 10 then [digit n] else decimal (n div 10) @ [digit (n mod 10)])"
  by pat_completeness auto
termination
  by (relation "measure (\<lambda>n. n)") auto

text \<open>
  The body of the \<^verbatim>\<open>try\<close> block that every method of \<^verbatim>\<open>api.ts\<close> repeats:
  \<^verbatim>\<open>
  const response = await fetch(...);
  if (!response.ok) { throw new Error(`HTTP error! status: ${response.status}`); }
  return await response.json();
  \<close>
  \<open>Inl\<close> is what the \<^verbatim>\<open>catch\<close> clause receives; \<open>Inr\<close> is the parsed body, returned as
  it is.
\<close>

definition tryFetch :: "'a fetch \<Rightarrow> error + 'a body" where
  "tryFetch f =
     (case f of
        Inl e \<Rightarrow> Inl e
      | Inr r \<Rightarrow>
          if \<not> ok r then Inl (Error (''HTTP error! status: '' @ decimal (status r)))
          else json r)"

section \<open>The service\<close>

record ApiService =
  baseUrl :: string
  useMockData :: bool

definition apiService :: ApiService where
  "apiService = \<lparr>baseUrl = ''http://localhost:3001/api'', useMockData = True\<rparr>"

subsection \<open>Mock data\<close>

definition getMockCollections :: "Collection list" where
  "getMockCollections =
    [\<lparr>Collection.id' = ''1'',
      name = ''User Management API'',
      description = ''APIs for user registration, authentication, and profile management'',
      size' = 8,
      createdAt = ''2024-01-15T10:30:00Z''\<rparr>,
     \<lparr>Collection.id' = ''2'',
      name = ''E-commerce API'',
      description = ''Product catalog, shopping cart, and order management endpoints'',
      size' = 12,
      createdAt = ''2024-01-20T14:45:00Z''\<rparr>,
     \<lparr>Collection.id' = ''3'',
      name = ''Payment Gateway'',
      description = ''Payment processing and transaction management APIs'',
      size' = 6,
      createdAt = ''2024-01-25T09:15:00Z''\<rparr>]"

definition mockRequests :: "string \<Rightarrow> HttpRequest list" where
  \<open>mockRequests cid =
    [\<lparr>HttpRequest.id' = cid @ ''_req_1'',
      collectionId = cid @ ''_req_1'',
      name = ''Get User Profile'',
      method' = ''GET'',
      url = ''https://api.example.com/users/{{userId}}'',
      headers =
        [(''Authorization'', ''Bearer {{token}}''),
         (''Content-Type'', ''application/json'')],
      body = '''',
      bodyType = ''none'',
      preScript = '''',
      postScript = ''pm.environment.set("userId", pm.response.json().id);'',
      tests =
        ''pm.test("Status code is 200", function () {\<newline>    pm.response.to.have.status(200);\<newline>});'',
      pathVariables = Some [(''userId'', ''123'')],
      createdAt = ''2024-01-15T10:30:00Z'',
      updatedAt = ''2024-01-15T10:30:00Z''\<rparr>,
     \<lparr>HttpRequest.id' = cid @ ''_req_2'',
      collectionId = cid @ ''_req_2'',
      name = ''Create User'',
      method' = ''POST'',
      url = ''https://api.example.com/users'',
      headers = [(''Content-Type'', ''application/json'')],
      body =
        ''{\<newline>  "name": "John Doe",\<newline>  "email": "john@example.com",\<newline>  "password": "securePassword123"\<newline>}'',
      bodyType = ''json'',
      preScript = '''',
      postScript = '''',
      tests =
        ''pm.test("User created successfully", function () {\<newline>    pm.response.to.have.status(201);\<newline>    pm.expect(pm.response.json()).to.have.property("id");\<newline>});'',
      pathVariables = None,
      createdAt = ''2024-01-15T11:00:00Z'',
      updatedAt = ''2024-01-15T11:00:00Z''\<rparr>]\<close>

definition getMockCollectionFull :: "string \<Rightarrow> CollectionFull" where
  "getMockCollectionFull cid =
    \<lparr>CollectionFull.id' = cid,
     name = ''User Management API'',
     description = ''APIs for user registration, authentication, and profile management'',
     requests = mockRequests cid,
     createdAt = ''2024-01-15T10:30:00Z''\<rparr>"

definition getMockEnvironments :: "Environment list" where
  "getMockEnvironments =
    [\<lparr>Environment.id' = ''1'',
      name = ''Development'',
      variables =
        [(''baseUrl'', ''https://api-dev.example.com''),
         (''token'', ''dev-token-123''),
         (''userId'', ''1'')],
      isActive = True,
      createdAt = ''2024-01-15T10:30:00Z'',
      updatedAt = None\<rparr>,
     \<lparr>Environment.id' = ''2'',
      name = ''Production'',
      variables =
        [(''baseUrl'', ''https://api.example.com''),
         (''token'', ''prod-token-456''),
         (''userId'', ''1'')],
      isActive = False,
      createdAt = ''2024-01-20T14:45:00Z'',
      updatedAt = None\<rparr>]"

subsection \<open>Collections\<close>

text \<open>
  Every method takes the service object \<open>this\<close> and the outcome \<open>f\<close> of the one
  \<^verbatim>\<open>fetch\<close> it may await; in mock mode \<open>f\<close> is never looked at. No method assigns to a
  field of the service, so the object is not returned. \<^verbatim>\<open>console.error\<close> has no effect on
  the result. What a method builds itself is \<open>Declared\<close>; what it passes on from
  \<^verbatim>\<open>response.json()\<close> is the body as parsed.
\<close>

definition getCollections ::
  "ApiService \<Rightarrow> Collection list fetch \<Rightarrow> error + Collection list body" where
  "getCollections this f =
     (if useMockData this then Inr (Declared getMockCollections)
      else case tryFetch f of
             Inr v \<Rightarrow> Inr v
           | Inl e \<Rightarrow> Inr (Declared getMockCollections))"

definition getCollectionById ::
  "ApiService \<Rightarrow> CollectionFull fetch \<Rightarrow> string \<Rightarrow> error + CollectionFull body" where
  "getCollectionById this f cid =
     (if useMockData this then Inr (Declared (getMockCollectionFull cid))
      else case tryFetch f of
             Inr v \<Rightarrow> Inr v
           | Inl e \<Rightarrow> Inr (Declared (getMockCollectionFull cid)))"

text \<open>
  The object literal \<^verbatim>\<open>{ _id: Date.now().toString(), ...collection, size: 0,
  createdAt: new Date().toISOString() }\<close>.
\<close>

definition newCollection :: "clock \<Rightarrow> CollectionOmit \<Rightarrow> Collection" where
  "newCollection t c =
     \<lparr>Collection.id' = now t,
      name = CollectionOmit.name c,
      description = CollectionOmit.description c,
      size' = 0,
      createdAt = toISOString t\<rparr>"

definition createCollection ::
  "ApiService \<Rightarrow> Collection fetch \<Rightarrow> clock \<Rightarrow> CollectionOmit \<Rightarrow> error + Collection body" where
  "createCollection this f t c =
     (if useMockData this then Inr (Declared (newCollection t c))
      else case tryFetch f of
             Inr v \<Rightarrow> Inr v
           | Inl e \<Rightarrow> Inr (Declared (newCollection t c)))"

text \<open>
  The spread \<^verbatim>\<open>{ ...collection, ...updates }\<close>: a key of \<^verbatim>\<open>updates\<close> overwrites the
  field, every other field is the collection's.
\<close>

definition spreadCollection :: "Collection \<Rightarrow> CollectionPartial \<Rightarrow> Collection" where
  "spreadCollection c u =
     \<lparr>Collection.id' = (case CollectionPartial.id' u of Some v \<Rightarrow> v | None \<Rightarrow> Collection.id' c),
      name = (case CollectionPartial.name u of Some v \<Rightarrow> v | None \<Rightarrow> Collection.name c),
      description =
        (case CollectionPartial.description u of Some v \<Rightarrow> v | None \<Rightarrow> Collection.description c),
      size' = (case CollectionPartial.size' u of Some v \<Rightarrow> v | None \<Rightarrow> Collection.size' c),
      createdAt =
        (case CollectionPartial.createdAt u of Some v \<Rightarrow> v | None \<Rightarrow> Collection.createdAt c)\<rparr>"

text \<open>
  In mock mode \<^verbatim>\<open>collections.find((c) => c._id === collectionId)\<close> gives the first
  collection with that id or \<^verbatim>\<open>undefined\<close>; otherwise the \<^verbatim>\<open>catch\<close> clause rethrows.
\<close>

definition updateCollection ::
  "ApiService \<Rightarrow> Collection fetch \<Rightarrow> string \<Rightarrow> CollectionPartial \<Rightarrow> error + Collection body" where
  "updateCollection this f cid updates =
     (if useMockData this then
        (case find (\<lambda>c. Collection.id' c = cid) getMockCollections of
           None \<Rightarrow> Inl (Error ''Collection not found'')
         | Some c \<Rightarrow> Inr (Declared (spreadCollection c updates)))
      else case tryFetch f of
             Inr v \<Rightarrow> Inr v
           | Inl e \<Rightarrow> Inl e)"

subsection \<open>Search\<close>

text \<open>
  \<^verbatim>\<open>String.prototype.toLowerCase\<close> on the characters of the model: the letters A to Z
  become a to z, every other character stays. (The case mappings that JavaScript has for
  characters outside ASCII are not part of the model.)
\<close>

definition toLowerChar :: "char \<Rightarrow> char" where
  "toLowerChar c =
     (case map_of (zip ''ABCDEFGHIJKLMNOPQRSTUVWXYZ'' ''abcdefghijklmnopqrstuvwxyz'') c of
        Some l \<Rightarrow> l
      | None \<Rightarrow> c)"

definition toLowerCase :: "string \<Rightarrow> string" where
  "toLowerCase s = map toLowerChar s"

text \<open>
  \<^verbatim>\<open>s.includes(q)\<close>: \<open>q\<close> occurs in \<open>s\<close> at some position; the empty string occurs in
  every string. (\<open>includes\<close> is a keyword of Isabelle, hence the prime.)
\<close>

fun includes' :: "string \<Rightarrow> string \<Rightarrow> bool" where
  "includes' [] q = (q = [])"
| "includes' (c # s) q = (prefix q (c # s) \<or> includes' s q)"

definition matchesQuery :: "string \<Rightarrow> Collection \<Rightarrow> bool" where
  "matchesQuery query c =
     (includes' (toLowerCase (Collection.name c)) (toLowerCase query) \<or>
      includes' (toLowerCase (Collection.description c)) (toLowerCase query))"

definition searchCollections ::
  "ApiService \<Rightarrow> Collection list fetch \<Rightarrow> string \<Rightarrow> error + Collection list body" where
  "searchCollections this f query =
     (if useMockData this then Inr (Declared (filter (matchesQuery query) getMockCollections))
      else case tryFetch f of
             Inr v \<Rightarrow> Inr v
           | Inl e \<Rightarrow> Inr (Declared (filter (matchesQuery query) getMockCollections)))"

subsection \<open>Environments\<close>

definition getEnvironments ::
  "ApiService \<Rightarrow> Environment list fetch \<Rightarrow> error + Environment list body" where
  "getEnvironments this f =
     (if useMockData this then Inr (Declared getMockEnvironments)
      else case tryFetch f of
             Inr v \<Rightarrow> Inr v
           | Inl e \<Rightarrow> Inr (Declared getMockEnvironments))"

text \<open>
  The object literal \<^verbatim>\<open>{ _id: Date.now().toString(), ...environment,
  createdAt: new Date().toISOString() }\<close>; it has no \<^verbatim>\<open>updatedAt\<close>.
\<close>

definition newEnvironment :: "clock \<Rightarrow> EnvironmentOmit \<Rightarrow> Environment" where
  "newEnvironment t e =
     \<lparr>Environment.id' = now t,
      name = EnvironmentOmit.name e,
      variables = EnvironmentOmit.variables e,
      isActive = EnvironmentOmit.isActive e,
      createdAt = toISOString t,
      updatedAt = None\<rparr>"

definition createEnvironment ::
  "ApiService \<Rightarrow> Environment fetch \<Rightarrow> clock \<Rightarrow> EnvironmentOmit \<Rightarrow> error + Environment body" where
  "createEnvironment this f t e =
     (if useMockData this then Inr (Declared (newEnvironment t e))
      else case tryFetch f of
             Inr v \<Rightarrow> Inr v
           | Inl err \<Rightarrow> Inr (Declared (newEnvironment t e)))"

text \<open>The spread \<^verbatim>\<open>{ ...environment, ...updates }\<close>.\<close>

definition spreadEnvironment :: "Environment \<Rightarrow> EnvironmentPartial \<Rightarrow> Environment" where
  "spreadEnvironment e u =
     \<lparr>Environment.id' = (case EnvironmentPartial.id' u of Some v \<Rightarrow> v | None \<Rightarrow> Environment.id' e),
      name = (case EnvironmentPartial.name u of Some v \<Rightarrow> v | None \<Rightarrow> Environment.name e),
      variables =
        (case EnvironmentPartial.variables u of Some v \<Rightarrow> v | None \<Rightarrow> Environment.variables e),
      isActive =
        (case EnvironmentPartial.isActive u of Some v \<Rightarrow> v | None \<Rightarrow> Environment.isActive e),
      createdAt =
        (case EnvironmentPartial.createdAt u of Some v \<Rightarrow> v | None \<Rightarrow> Environment.createdAt e),
      updatedAt =
        (case EnvironmentPartial.updatedAt u of Some v \<Rightarrow> Some v | None \<Rightarrow> Environment.updatedAt e)\<rparr>"

definition updateEnvironment ::
  "ApiService \<Rightarrow> Environment fetch \<Rightarrow> string \<Rightarrow> EnvironmentPartial \<Rightarrow> error + Environment body" where
  "updateEnvironment this f eid updates =
     (if useMockData this then
        (case find (\<lambda>e. Environment.id' e = eid) getMockEnvironments of
           None \<Rightarrow> Inl (Error ''Environment not found'')
         | Some e \<Rightarrow> Inr (Declared (spreadEnvironment e updates)))
      else case tryFetch f of
             Inr v \<Rightarrow> Inr v
           | Inl e \<Rightarrow> Inl e)"

text \<open>
  In mock mode \<^verbatim>\<open>deleteEnvironment\<close> resolves at once; otherwise it resolves unless the
  request fails or the response is not ok (the body is not read).
\<close>

definition deleteEnvironment :: "ApiService \<Rightarrow> unit fetch \<Rightarrow> string \<Rightarrow> error + unit" where
  "deleteEnvironment this f eid =
     (if useMockData this then Inr ()
      else case f of
             Inl e \<Rightarrow> Inl e
           | Inr r \<Rightarrow>
               if \<not> ok r then Inl (Error (''HTTP error! status: '' @ decimal (status r)))
               else Inr ())"

section \<open>The template resolver of the spec (section 4.2)\<close>

text \<open>
  Modelled from the spec: \<^verbatim>\<open>resolve\<close>, the Template Resolver, has no code among the
  sources; \<^verbatim>\<open>api.ts\<close> only stores the templates (\<^verbatim>\<open>url\<close>, \<^verbatim>\<open>headers\<close>, \<^verbatim>\<open>body\<close>) and the
  \<^verbatim>\<open>pathVariables\<close> it would read. The definitions of this section follow section 4.2 of
  the spec sentence by sentence.
\<close>

text \<open>
  Modelled from the spec: the \<^verbatim>\<open>ResolutionError\<close> names the unresolved identifier and its
  location, a field and an offset. A field is the URL, the value of one header, or the
  body.
\<close>

datatype templateField = UrlField | HeaderField string | BodyField

record ResolutionError =
  field :: templateField
  identifier' :: string
  offset :: nat

text \<open>
  Modelled from the spec: the \<^verbatim>\<open>ResolvedRequest\<close> holds the method, the expanded URL, the
  expanded headers and the expanded body.
\<close>

record ResolvedRequest =
  method' :: string
  url :: string
  headers :: "(string \<times> string) list"
  body :: string

text \<open>
  Modelled from the spec: the placeholder grammar. An identifier is
  \<^verbatim>\<open>[A-Za-z_][A-Za-z0-9_]*\<close>.
\<close>

definition isIdentStart :: "char \<Rightarrow> bool" where
  "isIdentStart c = (c \<in> set ''ABCDEFGHIJKLMNOPQRSTUVWXYZabcdefghijklmnopqrstuvwxyz_'')"

definition isIdentChar :: "char \<Rightarrow> bool" where
  "isIdentChar c = (isIdentStart c \<or> c \<in> set ''0123456789'')"

definition isIdentifier :: "string \<Rightarrow> bool" where
  "isIdentifier x = (x \<noteq> [] \<and> isIdentStart (hd x) \<and> list_all isIdentChar x)"

text \<open>
  Modelled from the spec: a placeholder is a literal pair of opening braces, an
  identifier and a literal pair of closing braces, with no nesting. \<open>placeholderAt s\<close>
  is the identifier of the placeholder that \<open>s\<close> starts with and the text after it, or
  \<open>None\<close> when \<open>s\<close> does not start with a placeholder.
\<close>

definition placeholderAt :: "string \<Rightarrow> (string \<times> string) option" where
  "placeholderAt s =
     (if take 2 s = ''{{'' then
        (let x = takeWhile isIdentChar (drop 2 s);
             rest = dropWhile isIdentChar (drop 2 s)
         in if x \<noteq> [] \<and> isIdentStart (hd x) \<and> take 2 rest = ''}}''
            then Some (x, drop 2 rest) else None)
      else None)"

text \<open>
  Modelled from the spec: the scan of one templated field, from left to right. A
  placeholder is recorded with the offset at which it starts; double braces that do not
  match the grammar are literal text.
\<close>

datatype token = Literal char | Placeholder string nat

function scan :: "nat \<Rightarrow> string \<Rightarrow> token list" where
  "scan off s =
     (case s of
        [] \<Rightarrow> []
      | c # t \<Rightarrow>
          (case placeholderAt s of
             Some (x, rest) \<Rightarrow> Placeholder x off # scan (off + length x + 4) rest
           | None \<Rightarrow> Literal c # scan (off + 1) t))"
  by pat_completeness auto
termination
proof (relation "measure (\<lambda>(off, s). length s)")
  show "wf (measure (\<lambda>(off, s). length s))" by simp
next
  fix off :: nat and s :: string and c t and p :: "string \<times> string" and x rest
  assume "s = c # t" and "placeholderAt s = Some p" and "(x, rest) = p"
  then have open2: "take 2 s = ''{{''"
    and rest: "rest = drop 2 (dropWhile isIdentChar (drop 2 s))"
    by (auto simp: placeholderAt_def Let_def split: if_splits)
  from open2 have "length (take 2 s) = 2" by simp
  then have "2 \<le> length s" by simp
  moreover have "length (dropWhile isIdentChar (drop 2 s)) \<le> length (drop 2 s)"
    by (rule length_dropWhile_le)
  ultimately have "length rest < length s" using rest by simp
  then show "((off + length x + 4, rest), (off, s)) \<in> measure (\<lambda>(off, s). length s)"
    by simp
next
  fix off :: nat and s :: string and c t
  assume "s = c # t"
  then show "((off + 1, t), (off, s)) \<in> measure (\<lambda>(off, s). length s)" by simp
qed

text \<open>
  Modelled from the spec: the scopes in strict precedence order, (1) the request-level
  \<^verbatim>\<open>pathVariables\<close>, (2) the variables of the active environment, if there is one. The
  first scope that has the name wins.
\<close>

definition lookupVar ::
  "(string \<times> string) list \<Rightarrow> Environment option \<Rightarrow> string \<Rightarrow> string option" where
  "lookupVar pv env x =
     (case map_of pv x of
        Some v \<Rightarrow> Some v
      | None \<Rightarrow>
          (case env of
             None \<Rightarrow> None
           | Some e \<Rightarrow> map_of (Environment.variables e) x))"

text \<open>
  Modelled from the spec: one resolution pass. The value of a placeholder is substituted
  verbatim and is not scanned again; the first placeholder that no scope resolves fails
  the resolution with its identifier, its field and its offset.
\<close>

fun substitute ::
  "(string \<Rightarrow> string option) \<Rightarrow> templateField \<Rightarrow> token list \<Rightarrow> ResolutionError + string" where
  "substitute look fld [] = Inr []"
| "substitute look fld (Literal c # ts) =
     (case substitute look fld ts of Inl e \<Rightarrow> Inl e | Inr out \<Rightarrow> Inr (c # out))"
| "substitute look fld (Placeholder x off # ts) =
     (case look x of
        None \<Rightarrow> Inl \<lparr>field = fld, identifier' = x, offset = off\<rparr>
      | Some v \<Rightarrow>
          (case substitute look fld ts of Inl e \<Rightarrow> Inl e | Inr out \<Rightarrow> Inr (v @ out)))"

text \<open>
  Modelled from the spec: the expansion of one templated field, the scan followed by the
  substitution, and of each header value in turn.
\<close>

definition expand ::
  "(string \<Rightarrow> string option) \<Rightarrow> templateField \<Rightarrow> string \<Rightarrow> ResolutionError + string" where
  "expand look fld s = substitute look fld (scan 0 s)"

fun expandHeaders ::
  "(string \<Rightarrow> string option) \<Rightarrow> (string \<times> string) list \<Rightarrow>
   ResolutionError + (string \<times> string) list" where
  "expandHeaders look [] = Inr []"
| "expandHeaders look ((k, v) # hs) =
     (case expand look (HeaderField k) v of
        Inl e \<Rightarrow> Inl e
      | Inr v' \<Rightarrow>
          (case expandHeaders look hs of
             Inl e \<Rightarrow> Inl e
           | Inr hs' \<Rightarrow> Inr ((k, v') # hs')))"

text \<open>
  Modelled from the spec: \<^verbatim>\<open>resolve(request, pathVariables, activeEnv)\<close> expands the URL,
  each header value and the body, in this order, and gives the \<^verbatim>\<open>ResolvedRequest\<close> or the
  \<^verbatim>\<open>ResolutionError\<close>.
\<close>

definition resolve ::
  "HttpRequest \<Rightarrow> (string \<times> string) list \<Rightarrow> Environment option \<Rightarrow>
   ResolutionError + ResolvedRequest" where
  "resolve r pv env =
     (case expand (lookupVar pv env) UrlField (HttpRequest.url r) of
        Inl e \<Rightarrow> Inl e
      | Inr u \<Rightarrow>
          (case expandHeaders (lookupVar pv env) (HttpRequest.headers r) of
             Inl e \<Rightarrow> Inl e
           | Inr hs \<Rightarrow>
               (case expand (lookupVar pv env) BodyField (HttpRequest.body r) of
                  Inl e \<Rightarrow> Inl e
                | Inr b \<Rightarrow>
                    Inr \<lparr>method' = HttpRequest.method' r, url = u, headers = hs, body = b\<rparr>)))"

text \<open>
  Modelled from the spec: the templated fields of a request (the URL, each header value,
  the body) with their templates, and the fields of a resolved request with their
  expansions, in the same order.
\<close>

definition templatedFields :: "HttpRequest \<Rightarrow> (templateField \<times> string) list" where
  "templatedFields r =
     (UrlField, HttpRequest.url r) #
     map (\<lambda>(k, v). (HeaderField k, v)) (HttpRequest.headers r) @
     [(BodyField, HttpRequest.body r)]"

definition resolvedFields :: "ResolvedRequest \<Rightarrow> (templateField \<times> string) list" where
  "resolvedFields rr =
     (UrlField, ResolvedRequest.url rr) #
     map (\<lambda>(k, v). (HeaderField k, v)) (ResolvedRequest.headers rr) @
     [(BodyField, ResolvedRequest.body rr)]"

declare scan.simps [simp del]

section \<open>Notions and inputs used to state the properties\<close>

text \<open>
  \<open>q\<close> is a case-insensitive substring of \<open>s\<close>: some stretch of \<open>s\<close> as long as \<open>q\<close>
  agrees with \<open>q\<close> character by character, up to the case of the letters.
\<close>

definition containsIgnoringCase :: "string \<Rightarrow> string \<Rightarrow> bool" where
  "containsIgnoringCase s q =
     (\<exists>pre mid post. s = pre @ mid @ post \<and> length mid = length q \<and>
        list_all2 (\<lambda>a b. toLowerChar a = toLowerChar b) mid q)"

text \<open>
  The placeholders of a text, said without the scan: the identifier \<open>x\<close> occurs as a
  placeholder of \<open>t\<close> at the offset \<open>off\<close> when \<open>x\<close> is an identifier of the grammar and
  \<open>t\<close> has, after its first \<open>off\<close> characters, two opening braces, \<open>x\<close> and two closing
  braces. A request has a placeholder in a field at an offset when the template of that
  field has.
\<close>

definition occursAt :: "string \<Rightarrow> nat \<Rightarrow> string \<Rightarrow> bool" where
  "occursAt t off x =
     (isIdentifier x \<and>
      (\<exists>pre post. t = pre @ ''{{'' @ x @ ''}}'' @ post \<and> length pre = off))"

definition hasPlaceholder :: "HttpRequest \<Rightarrow> templateField \<Rightarrow> nat \<Rightarrow> string \<Rightarrow> bool" where
  "hasPlaceholder r fld off x = (\<exists>t. (fld, t) \<in> set (templatedFields r) \<and> occursAt t off x)"

text \<open>
  A name is in neither scope when the path variables do not have it and the active
  environment, if there is one, does not have it.
\<close>

definition inNeitherScope ::
  "(string \<times> string) list \<Rightarrow> Environment option \<Rightarrow> string \<Rightarrow> bool" where
  "inNeitherScope pv env x =
     (map_of pv x = None \<and>
      (case env of None \<Rightarrow> True | Some e \<Rightarrow> map_of (Environment.variables e) x = None))"

text \<open>
  A method resolves to a value of the type it declares, a list for \<^verbatim>\<open>getCollections\<close>
  and \<^verbatim>\<open>getEnvironments\<close>.
\<close>

definition resolvesToDeclared :: "error + 'a body \<Rightarrow> bool" where
  "resolvesToDeclared r =
     (case r of Inl e \<Rightarrow> False | Inr (Declared v) \<Rightarrow> True | Inr (Undeclared j) \<Rightarrow> False)"

text \<open>
  Two requests to try the resolver on: the first mock request with the URL
  \<^verbatim>\<open>{{a}}/{{b}}\<close>, which has two placeholders, and the first mock request with a JSON body
  that has braces of its own around two placeholders.
\<close>

definition twoMissing :: HttpRequest where
  "twoMissing = (hd (mockRequests ''1''))\<lparr>HttpRequest.url := ''{{a}}/{{b}}''\<rparr>"

definition jsonBody :: HttpRequest where
  \<open>jsonBody =
     (hd (mockRequests ''1''))\<lparr>HttpRequest.body := ''{"u": "{{userId}}", "m": "{{missing}}"}''\<rparr>\<close>

section \<open>Properties of the service\<close>

subsection \<open>The size of a collection\<close>

text \<open>
  Claim C1 says that the size of every collection equals the number of its requests. It
  fails on the mock data: \<^verbatim>\<open>getCollections\<close> reports size 8 for the collection with id
  \<^verbatim>\<open>"1"\<close>, and \<^verbatim>\<open>getCollectionById("1")\<close> returns two requests.
\<close>

theorem collection_size_counterexample:
  "getCollections apiService (Inl (Error ''offline'')) = Inr (Declared getMockCollections) \<and>
   Collection.id' (hd getMockCollections) = ''1'' \<and>
   Collection.size' (hd getMockCollections) = 8 \<and>
   getCollectionById apiService (Inl (Error ''offline'')) ''1'' =
     Inr (Declared (getMockCollectionFull ''1'')) \<and>
   length (requests (getMockCollectionFull ''1'')) = 2 \<and>
   Collection.size' (hd getMockCollections) \<noteq> length (requests (getMockCollectionFull ''1''))"
  by (simp add: getCollections_def getCollectionById_def apiService_def getMockCollections_def
      getMockCollectionFull_def mockRequests_def)

text \<open>
  Claim C1, amended: the size is a stored number that no method derives from the
  requests. In mock mode \<^verbatim>\<open>getCollections\<close> reports the sizes 8, 12 and 6 for the ids
  \<^verbatim>\<open>"1"\<close>, \<^verbatim>\<open>"2"\<close> and \<^verbatim>\<open>"3"\<close>, \<^verbatim>\<open>getCollectionById\<close> returns a collection of that id with
  exactly two requests for every id, and \<^verbatim>\<open>createCollection\<close> returns a collection of
  size 0.
\<close>

theorem collection_size_stored:
  assumes "useMockData this"
  shows "(\<exists>cs. getCollections this f = Inr (Declared cs) \<and>
            map (\<lambda>c. (Collection.id' c, Collection.size' c)) cs =
              [(''1'', 8), (''2'', 12), (''3'', 6)]) \<and>
         (\<exists>full. getCollectionById this g cid = Inr (Declared full) \<and>
            CollectionFull.id' full = cid \<and> length (requests full) = 2) \<and>
         (\<exists>c. createCollection this h t new = Inr (Declared c) \<and> Collection.size' c = 0)"
  using assms
  by (simp add: getCollections_def getCollectionById_def createCollection_def newCollection_def
      getMockCollections_def getMockCollectionFull_def mockRequests_def)

text \<open>The amended claim C1 at the exported service, for the id \<^verbatim>\<open>"2"\<close>.\<close>

theorem collection_size_stored_witness:
  "useMockData apiService \<and>
   (\<exists>cs. getCollections apiService (Inl (Error ''offline'')) = Inr (Declared cs) \<and>
      map (\<lambda>c. (Collection.id' c, Collection.size' c)) cs =
        [(''1'', 8), (''2'', 12), (''3'', 6)]) \<and>
   (\<exists>full. getCollectionById apiService (Inl (Error ''offline'')) ''2'' = Inr (Declared full) \<and>
      CollectionFull.id' full = ''2'' \<and> length (requests full) = 2) \<and>
   (\<exists>c. createCollection apiService (Inl (Error ''offline''))
           \<lparr>now = ''1700000000000'', toISOString = ''2023-11-14T22:13:20.000Z''\<rparr>
           \<lparr>CollectionOmit.name = ''Orders'', description = ''Order endpoints''\<rparr> =
             Inr (Declared c) \<and>
      Collection.size' c = 0)"
proof -
  have h: "useMockData apiService" by (simp add: apiService_def)
  show ?thesis using h collection_size_stored [OF h] by simp
qed

subsection \<open>The active environment\<close>

text \<open>
  Claim C2 says that an update that activates an environment deactivates all others. It
  fails: in mock mode \<^verbatim>\<open>updateEnvironment("2", {isActive: true})\<close> returns the environment
  \<^verbatim>\<open>"2"\<close> as active, and \<^verbatim>\<open>getEnvironments\<close> still lists the environment \<^verbatim>\<open>"1"\<close> as
  active.
\<close>

theorem environment_active_counterexample:
  "updateEnvironment apiService (Inl (Error ''offline'')) ''2''
     \<lparr>EnvironmentPartial.id' = None, name = None, variables = None, isActive = Some True,
      createdAt = None, updatedAt = None\<rparr> =
     Inr (Declared \<lparr>Environment.id' = ''2'', name = ''Production'',
          variables = [(''baseUrl'', ''https://api.example.com''), (''token'', ''prod-token-456''),
                       (''userId'', ''1'')],
          isActive = True, createdAt = ''2024-01-20T14:45:00Z'', updatedAt = None\<rparr>) \<and>
   getEnvironments apiService (Inl (Error ''offline'')) = Inr (Declared getMockEnvironments) \<and>
   map (\<lambda>e. (Environment.id' e, Environment.isActive e)) getMockEnvironments =
     [(''1'', True), (''2'', False)]"
  by (simp add: updateEnvironment_def getEnvironments_def apiService_def getMockEnvironments_def
      spreadEnvironment_def)

text \<open>
  Claim C2, amended: in mock mode the list that \<^verbatim>\<open>getEnvironments\<close> returns has exactly
  one active environment. \<^verbatim>\<open>updateEnvironment\<close> deactivates nothing: when it succeeds it
  returns the one mock environment with the given id, with the fields of the update
  written over it, so it is active if the update says so and otherwise as it was stored;
  \<^verbatim>\<open>createEnvironment\<close> returns an environment that is active if its argument is.
\<close>

theorem environment_active_mock:
  assumes "useMockData this"
  shows "(\<exists>es. getEnvironments this f = Inr (Declared es) \<and>
            length (filter Environment.isActive es) = 1) \<and>
         (\<forall>b. updateEnvironment this g eid u = Inr b \<longrightarrow>
            (\<exists>e. e \<in> set getMockEnvironments \<and> Environment.id' e = eid \<and>
               b = Declared (spreadEnvironment e u) \<and>
               Environment.isActive (spreadEnvironment e u) =
                 (case EnvironmentPartial.isActive u of
                    Some a \<Rightarrow> a
                  | None \<Rightarrow> Environment.isActive e))) \<and>
         (\<exists>e'. createEnvironment this h t new = Inr (Declared e') \<and>
            Environment.isActive e' = EnvironmentOmit.isActive new)"
proof -
  have 1: "\<exists>es. getEnvironments this f = Inr (Declared es) \<and>
      length (filter Environment.isActive es) = 1"
    using assms by (simp add: getEnvironments_def getMockEnvironments_def)
  have 2: "\<exists>e. e \<in> set getMockEnvironments \<and> Environment.id' e = eid \<and>
               b = Declared (spreadEnvironment e u) \<and>
               Environment.isActive (spreadEnvironment e u) =
                 (case EnvironmentPartial.isActive u of
                    Some a \<Rightarrow> a
                  | None \<Rightarrow> Environment.isActive e)"
    if "updateEnvironment this g eid u = Inr b" for b
  proof -
    from that assms obtain e
      where f: "find (\<lambda>e. Environment.id' e = eid) getMockEnvironments = Some e"
        and b: "b = Declared (spreadEnvironment e u)"
      by (auto simp: updateEnvironment_def split: option.splits)
    from f have "e \<in> set getMockEnvironments" and "Environment.id' e = eid"
      by (auto simp: find_Some_iff)
    with b show ?thesis by (auto simp: spreadEnvironment_def)
  qed
  have 3: "\<exists>e'. createEnvironment this h t new = Inr (Declared e') \<and>
            Environment.isActive e' = EnvironmentOmit.isActive new"
    using assms by (simp add: createEnvironment_def newEnvironment_def)
  from 1 2 3 show ?thesis by blast
qed

text \<open>
  The amended claim C2 at the exported service, for the update that activates the
  environment \<^verbatim>\<open>"2"\<close>.
\<close>

theorem environment_active_mock_witness:
  "useMockData apiService \<and>
   (\<exists>es. getEnvironments apiService (Inl (Error ''offline'')) = Inr (Declared es) \<and>
      length (filter Environment.isActive es) = 1) \<and>
   (\<exists>e. e \<in> set getMockEnvironments \<and> Environment.id' e = ''2'' \<and>
      updateEnvironment apiService (Inl (Error ''offline'')) ''2''
        \<lparr>EnvironmentPartial.id' = None, name = None, variables = None, isActive = Some True,
         createdAt = None, updatedAt = None\<rparr> = Inr (Declared (spreadEnvironment e
        \<lparr>EnvironmentPartial.id' = None, name = None, variables = None, isActive = Some True,
         createdAt = None, updatedAt = None\<rparr>)) \<and>
      Environment.isActive (spreadEnvironment e
        \<lparr>EnvironmentPartial.id' = None, name = None, variables = None, isActive = Some True,
         createdAt = None, updatedAt = None\<rparr>))"
proof -
  let ?u = "\<lparr>EnvironmentPartial.id' = None, name = None, variables = None,
         isActive = Some True, createdAt = None, updatedAt = None\<rparr>"
  have h: "useMockData apiService" by (simp add: apiService_def)
  obtain b where r: "updateEnvironment apiService (Inl (Error ''offline'')) ''2'' ?u = Inr b"
    by (simp add: updateEnvironment_def apiService_def getMockEnvironments_def)
  note t = environment_active_mock
    [OF h, of "Inl (Error ''offline'')" "Inl (Error ''offline'')" "''2''" ?u]
  from t r obtain e where "e \<in> set getMockEnvironments" and "Environment.id' e = ''2''"
    and "b = Declared (spreadEnvironment e ?u)"
    and "Environment.isActive (spreadEnvironment e ?u) = True"
    by fastforce
  with r h t show ?thesis by blast
qed

subsection \<open>Searching the collections\<close>

lemma includes_sublist: "includes' s q = sublist q s"
  by (induction s) (auto simp: sublist_Cons_right)

lemma list_all2_lower:
  "list_all2 (\<lambda>a b. toLowerChar a = toLowerChar b) xs ys =
     (map toLowerChar xs = map toLowerChar ys)"
proof (induction xs arbitrary: ys)
  case Nil
  then show ?case by auto
next
  case (Cons x xs)
  then show ?case by (cases ys) auto
qed

text \<open>
  Lowering both strings and looking for the one in the other, as the filter of
  \<^verbatim>\<open>searchCollections\<close> does, decides the case-insensitive substring.
\<close>

lemma includes_toLowerCase:
  "includes' (toLowerCase s) (toLowerCase q) = containsIgnoringCase s q"
proof
  assume "includes' (toLowerCase s) (toLowerCase q)"
  then obtain ps ss where eq: "map toLowerChar s = ps @ map toLowerChar q @ ss"
    by (auto simp: includes_sublist sublist_def toLowerCase_def)
  then have "\<exists>pre r. s = pre @ r \<and> map toLowerChar q @ ss = map toLowerChar r"
    by (auto simp: map_eq_append_conv)
  then obtain pre r where s: "s = pre @ r" and r: "map toLowerChar q @ ss = map toLowerChar r"
    by blast
  from r have "\<exists>mid post. r = mid @ post \<and> map toLowerChar mid = map toLowerChar q"
    by (auto simp: append_eq_map_conv)
  then obtain mid post where "r = mid @ post" and "map toLowerChar mid = map toLowerChar q"
    by blast
  with s show "containsIgnoringCase s q"
    unfolding containsIgnoringCase_def list_all2_lower
    by (metis length_map)
next
  assume "containsIgnoringCase s q"
  then show "includes' (toLowerCase s) (toLowerCase q)"
    unfolding containsIgnoringCase_def list_all2_lower includes_sublist sublist_def
      toLowerCase_def
    by (metis map_append)
qed

text \<open>
  Claim C8: in mock mode \<^verbatim>\<open>searchCollections(q)\<close> returns exactly those collections of
  \<^verbatim>\<open>getCollections\<close> whose name or description contains \<open>q\<close> as a case-insensitive
  substring, in the order of \<^verbatim>\<open>getCollections\<close>; the empty query returns every
  collection.
\<close>

theorem searchCollections_mock:
  assumes "useMockData this"
  shows "\<exists>cs. getCollections this g = Inr (Declared cs) \<and>
      searchCollections this f q =
        Inr (Declared (filter (\<lambda>c. containsIgnoringCase (Collection.name c) q \<or>
                          containsIgnoringCase (Collection.description c) q) cs)) \<and>
      searchCollections this f [] = Inr (Declared cs)"
proof -
  have all: "containsIgnoringCase s []" for s
    unfolding containsIgnoringCase_def
    by (rule exI [of _ s], rule exI [of _ "[]"], rule exI [of _ "[]"]) simp
  have m: "matchesQuery q = (\<lambda>c. containsIgnoringCase (Collection.name c) q \<or>
      containsIgnoringCase (Collection.description c) q)" for q
    by (rule ext) (simp add: matchesQuery_def includes_toLowerCase)
  have "filter (matchesQuery []) xs = xs" for xs
    by (simp add: m all)
  with assms show ?thesis
    by (simp add: getCollections_def searchCollections_def m)
qed

text \<open>Claim C8 at the exported service, for the query \<^verbatim>\<open>PAY\<close>.\<close>

theorem searchCollections_mock_witness:
  "useMockData apiService \<and>
   (\<exists>cs. getCollections apiService (Inl (Error ''offline'')) = Inr (Declared cs) \<and>
      searchCollections apiService (Inl (Error ''offline'')) ''PAY'' =
        Inr (Declared (filter (\<lambda>c. containsIgnoringCase (Collection.name c) ''PAY'' \<or>
                          containsIgnoringCase (Collection.description c) ''PAY'') cs)) \<and>
      searchCollections apiService (Inl (Error ''offline'')) [] = Inr (Declared cs))"
proof -
  have h: "useMockData apiService" by (simp add: apiService_def)
  show ?thesis using h searchCollections_mock [OF h] by simp
qed

text \<open>
  The query \<^verbatim>\<open>PAY\<close> finds the third collection only, by its name \<^verbatim>\<open>Payment Gateway\<close> and
  its description; the query \<^verbatim>\<open>aPi\<close> finds all three.
\<close>

lemma searchCollections_examples:
  "searchCollections apiService f ''PAY'' = Inr (Declared [getMockCollections ! 2]) \<and>
   searchCollections apiService f ''aPi'' = Inr (Declared getMockCollections)"
  by code_simp

subsection \<open>Reading never fails\<close>

text \<open>
  Claim C9 says that \<^verbatim>\<open>getCollections\<close> and \<^verbatim>\<open>getEnvironments\<close> return a list for every
  outcome of the fetch. It fails outside mock mode for an ok response whose body is not
  a list: the methods return \<^verbatim>\<open>response.json()\<close> as it is, so a body \<^verbatim>\<open>null\<close> is returned
  as \<^verbatim>\<open>null\<close>.
\<close>

theorem get_returns_list_counterexample:
  "getCollections (apiService\<lparr>useMockData := False\<rparr>)
     (Inr (Response True 200 (Inr (Undeclared JsonNull)))) = Inr (Undeclared JsonNull) \<and>
   \<not> resolvesToDeclared (getCollections (apiService\<lparr>useMockData := False\<rparr>)
     (Inr (Response True 200 (Inr (Undeclared JsonNull))))) \<and>
   getEnvironments (apiService\<lparr>useMockData := False\<rparr>)
     (Inr (Response True 200 (Inr (Undeclared JsonNull)))) = Inr (Undeclared JsonNull) \<and>
   \<not> resolvesToDeclared (getEnvironments (apiService\<lparr>useMockData := False\<rparr>)
     (Inr (Response True 200 (Inr (Undeclared JsonNull)))))"
  by (simp add: getCollections_def getEnvironments_def tryFetch_def apiService_def
      resolvesToDeclared_def)

text \<open>
  Claim C9, amended: \<^verbatim>\<open>getCollections\<close> and \<^verbatim>\<open>getEnvironments\<close> never reject, whatever the
  service object and the outcome of the fetch. In mock mode, and when the fetch rejects,
  when the response is not ok and when reading its body rejects, they resolve to the
  mock list; outside mock mode, for an ok response whose body is read, they resolve to
  the parsed body as it is, list or not.
\<close>

theorem get_never_raises:
  "(\<exists>b. getCollections this f = Inr b) \<and>
   (\<exists>b. getEnvironments this g = Inr b) \<and>
   getCollections (this\<lparr>useMockData := True\<rparr>) f = Inr (Declared getMockCollections) \<and>
   getCollections this (Inl e) = Inr (Declared getMockCollections) \<and>
   getCollections this (Inr (Response False st j)) = Inr (Declared getMockCollections) \<and>
   getCollections this (Inr (Response ok' st (Inl e))) = Inr (Declared getMockCollections) \<and>
   getCollections (this\<lparr>useMockData := False\<rparr>) (Inr (Response True st (Inr c))) = Inr c \<and>
   getEnvironments (this\<lparr>useMockData := True\<rparr>) g = Inr (Declared getMockEnvironments) \<and>
   getEnvironments this (Inl e) = Inr (Declared getMockEnvironments) \<and>
   getEnvironments this (Inr (Response False st j')) = Inr (Declared getMockEnvironments) \<and>
   getEnvironments this (Inr (Response ok' st (Inl e))) = Inr (Declared getMockEnvironments) \<and>
   getEnvironments (this\<lparr>useMockData := False\<rparr>) (Inr (Response True st (Inr c'))) = Inr c'"
  by (simp add: getCollections_def getEnvironments_def tryFetch_def split: sum.splits)

subsection \<open>Updating a collection\<close>

lemma mock_collection_ids: "map Collection.id' getMockCollections = [''1'', ''2'', ''3'']"
  by (simp add: getMockCollections_def)

lemma find_unique_id:
  assumes "distinct (map key xs)" and "c \<in> set xs"
  shows "find (\<lambda>x. key x = key c) xs = Some c"
  using assms by (induction xs) (auto simp: image_iff)

text \<open>
  Claim C10: in mock mode \<^verbatim>\<open>updateCollection(collectionId, updates)\<close> rejects if and only
  if no mock collection has the id, and then with the error \<^verbatim>\<open>Collection not found\<close>;
  otherwise it returns the collection of that id in which every field that \<^verbatim>\<open>updates\<close>
  names has the value of \<^verbatim>\<open>updates\<close> and every other field is unchanged.
\<close>

theorem updateCollection_mock:
  assumes "useMockData this"
  shows "((\<exists>e. updateCollection this f cid u = Inl e) =
            (cid \<notin> Collection.id' ` set getMockCollections)) \<and>
         (\<forall>e. updateCollection this f cid u = Inl e \<longrightarrow> e = Error ''Collection not found'') \<and>
         (\<forall>c. c \<in> set getMockCollections \<and> Collection.id' c = cid \<longrightarrow>
            (\<exists>r. updateCollection this f cid u = Inr (Declared r) \<and>
               Collection.id' r =
                 (case CollectionPartial.id' u of Some v \<Rightarrow> v | None \<Rightarrow> Collection.id' c) \<and>
               Collection.name r =
                 (case CollectionPartial.name u of Some v \<Rightarrow> v | None \<Rightarrow> Collection.name c) \<and>
               Collection.description r =
                 (case CollectionPartial.description u of
                    Some v \<Rightarrow> v
                  | None \<Rightarrow> Collection.description c) \<and>
               Collection.size' r =
                 (case CollectionPartial.size' u of Some v \<Rightarrow> v | None \<Rightarrow> Collection.size' c) \<and>
               Collection.createdAt r =
                 (case CollectionPartial.createdAt u of
                    Some v \<Rightarrow> v
                  | None \<Rightarrow> Collection.createdAt c)))"
proof -
  have upd: "updateCollection this f cid u =
      (case find (\<lambda>c. Collection.id' c = cid) getMockCollections of
         None \<Rightarrow> Inl (Error ''Collection not found'')
       | Some c \<Rightarrow> Inr (Declared (spreadCollection c u)))"
    using assms by (simp add: updateCollection_def)
  have none: "(find (\<lambda>c. Collection.id' c = cid) getMockCollections = None) =
      (cid \<notin> Collection.id' ` set getMockCollections)"
    by (auto simp: find_None_iff)
  have dist: "distinct (map Collection.id' getMockCollections)"
    by (simp add: mock_collection_ids)
  have some: "find (\<lambda>x. Collection.id' x = cid) getMockCollections = Some c"
    if "c \<in> set getMockCollections" and "Collection.id' c = cid" for c
    using find_unique_id [OF dist that(1)] that(2) by simp
  have 1: "(\<exists>e. updateCollection this f cid u = Inl e) =
      (cid \<notin> Collection.id' ` set getMockCollections)"
    unfolding upd none [symmetric] by (simp split: option.splits)
  have 2: "\<forall>e. updateCollection this f cid u = Inl e \<longrightarrow> e = Error ''Collection not found''"
    unfolding upd by (simp split: option.splits)
  have 3: "\<exists>r. updateCollection this f cid u = Inr (Declared r) \<and>
       Collection.id' r =
         (case CollectionPartial.id' u of Some v \<Rightarrow> v | None \<Rightarrow> Collection.id' c) \<and>
       Collection.name r =
         (case CollectionPartial.name u of Some v \<Rightarrow> v | None \<Rightarrow> Collection.name c) \<and>
       Collection.description r =
         (case CollectionPartial.description u of
            Some v \<Rightarrow> v
          | None \<Rightarrow> Collection.description c) \<and>
       Collection.size' r =
         (case CollectionPartial.size' u of Some v \<Rightarrow> v | None \<Rightarrow> Collection.size' c) \<and>
       Collection.createdAt r =
         (case CollectionPartial.createdAt u of
            Some v \<Rightarrow> v
          | None \<Rightarrow> Collection.createdAt c)"
    if "c \<in> set getMockCollections" and "Collection.id' c = cid" for c
    unfolding upd some [OF that] by (simp add: spreadCollection_def)
  from 1 2 3 show ?thesis by blast
qed

text \<open>
  Claim C10 at the exported service: renaming the collection \<^verbatim>\<open>"2"\<close> changes its name
  only, and the id \<^verbatim>\<open>"4"\<close> is not found.
\<close>

theorem updateCollection_mock_witness:
  "useMockData apiService \<and>
   updateCollection apiService (Inl (Error ''offline'')) ''2''
       \<lparr>CollectionPartial.id' = None, name = Some ''Shop'', description = None,
        size' = None, createdAt = None\<rparr> =
     Inr (Declared \<lparr>Collection.id' = ''2'', name = ''Shop'',
          description = ''Product catalog, shopping cart, and order management endpoints'',
          size' = 12, createdAt = ''2024-01-20T14:45:00Z''\<rparr>) \<and>
   updateCollection apiService (Inl (Error ''offline'')) ''4''
       \<lparr>CollectionPartial.id' = None, name = Some ''Shop'', description = None,
        size' = None, createdAt = None\<rparr> =
     Inl (Error ''Collection not found'')"
proof -
  let ?u = "\<lparr>CollectionPartial.id' = None, name = Some ''Shop'', description = None,
        size' = None, createdAt = None\<rparr>"
  let ?c = "\<lparr>Collection.id' = ''2'', name = ''E-commerce API'',
      description = ''Product catalog, shopping cart, and order management endpoints'',
      size' = 12, createdAt = ''2024-01-20T14:45:00Z''\<rparr>"
  have h: "useMockData apiService" by (simp add: apiService_def)
  have c: "?c \<in> set getMockCollections \<and> Collection.id' ?c = ''2''"
    by (simp add: getMockCollections_def)
  have n: "''4'' \<notin> Collection.id' ` set getMockCollections"
    by (simp add: getMockCollections_def)
  note t2 = updateCollection_mock [OF h, of "Inl (Error ''offline'')" "''2''" ?u]
  note t4 = updateCollection_mock [OF h, of "Inl (Error ''offline'')" "''4''" ?u]
  from t2 c obtain r
    where r: "updateCollection apiService (Inl (Error ''offline'')) ''2'' ?u = Inr (Declared r)"
      and "Collection.id' r = ''2''" and "Collection.name r = ''Shop''"
      and "Collection.description r =
        ''Product catalog, shopping cart, and order management endpoints''"
      and "Collection.size' r = 12" and "Collection.createdAt r = ''2024-01-20T14:45:00Z''"
    by fastforce
  then have "r = \<lparr>Collection.id' = ''2'', name = ''Shop'',
          description = ''Product catalog, shopping cart, and order management endpoints'',
          size' = 12, createdAt = ''2024-01-20T14:45:00Z''\<rparr>"
    by (cases r) simp
  moreover from t4 n
  have "updateCollection apiService (Inl (Error ''offline'')) ''4'' ?u =
      Inl (Error ''Collection not found'')"
    by blast
  ultimately show ?thesis using h r by simp
qed

section \<open>Properties of the template resolver\<close>

subsection \<open>The scan\<close>

lemma scan_Nil: "scan off [] = []"
  by (simp add: scan.simps)

lemma scan_placeholder:
  "placeholderAt (c # t) = Some (x, rest) \<Longrightarrow>
   scan off (c # t) = Placeholder x off # scan (off + length x + 4) rest"
  by (subst scan.simps) simp

lemma scan_literal:
  "placeholderAt (c # t) = None \<Longrightarrow> scan off (c # t) = Literal c # scan (off + 1) t"
  by (subst scan.simps) simp

lemma not_isIdentChar_brace: "\<not> isIdentChar CHR ''}''" "\<not> isIdentChar CHR ''{''"
  by (simp_all add: isIdentChar_def isIdentStart_def)

lemma placeholderAt_placeholder:
  assumes "isIdentifier x"
  shows "placeholderAt (''{{'' @ x @ ''}}'' @ post) = Some (x, post)"
proof -
  from assms have all: "\<And>c. c \<in> set x \<Longrightarrow> isIdentChar c" and ne: "x \<noteq> []"
    and st: "isIdentStart (hd x)"
    by (auto simp: isIdentifier_def list_all_iff)
  have tw: "takeWhile isIdentChar (x @ ''}}'' @ post) = x"
    using all by (simp add: not_isIdentChar_brace)
  have dw: "dropWhile isIdentChar (x @ ''}}'' @ post) = ''}}'' @ post"
    using all by (simp add: not_isIdentChar_brace)
  show ?thesis
    using ne st tw dw by (simp add: placeholderAt_def)
qed

lemma placeholderAt_Some:
  assumes "placeholderAt s = Some (y, rest)"
  shows "s = ''{{'' @ y @ ''}}'' @ rest" and "isIdentifier y"
proof -
  let ?d = "drop 2 s"
  from assms have o: "take 2 s = ''{{''" and y: "y = takeWhile isIdentChar ?d"
    and ne: "y \<noteq> []" and st: "isIdentStart (hd y)"
    and c: "take 2 (dropWhile isIdentChar ?d) = ''}}''"
    and rest: "rest = drop 2 (dropWhile isIdentChar ?d)"
    by (auto simp: placeholderAt_def Let_def split: if_splits)
  have "s = take 2 s @ ?d" by simp
  also have "?d = takeWhile isIdentChar ?d @ dropWhile isIdentChar ?d" by simp
  also have "dropWhile isIdentChar ?d =
      take 2 (dropWhile isIdentChar ?d) @ drop 2 (dropWhile isIdentChar ?d)" by simp
  finally show "s = ''{{'' @ y @ ''}}'' @ rest"
    unfolding o c y rest .
  have "list_all isIdentChar y"
    unfolding y list_all_iff by (auto dest: set_takeWhileD)
  with ne st show "isIdentifier y" by (simp add: isIdentifier_def)
qed

lemma placeholderAt_append_Some:
  assumes "placeholderAt s = Some (y, rest)"
  shows "placeholderAt (s @ u) = Some (y, rest @ u)"
proof -
  from placeholderAt_Some [OF assms] have "s @ u = ''{{'' @ y @ ''}}'' @ (rest @ u)"
    and "isIdentifier y" by simp_all
  then show ?thesis by (simp only: placeholderAt_placeholder)
qed

lemma placeholderAt_append_None:
  assumes "placeholderAt (c # t) = None"
  shows "placeholderAt ((c # t) @ ''{{'' @ u) = None"
proof (rule ccontr)
  assume "placeholderAt ((c # t) @ ''{{'' @ u) \<noteq> None"
  then obtain y rest where some: "placeholderAt ((c # t) @ ''{{'' @ u) = Some (y, rest)"
    by auto
  note eq = placeholderAt_Some(1) [OF some] and idy = placeholderAt_Some(2) [OF some]
  from idy have ne: "y \<noteq> []" and st: "isIdentStart (hd y)"
    and all: "\<forall>a\<in>set y. isIdentChar a"
    by (auto simp: isIdentifier_def list_all_iff)
  have nb: "CHR ''{'' \<notin> set (y @ ''}}'')"
    using all not_isIdentChar_brace by auto
  show False
  proof (cases t)
    case Nil
    with eq ne have "hd y = CHR ''{''" by (cases y) auto
    with ne nb show False by (cases y) auto
  next
    case (Cons c2 t2)
    with eq have c: "c = CHR ''{''" "c2 = CHR ''{''"
      and body: "t2 @ ''{{'' @ u = (y @ ''}}'') @ rest" by auto
    have le: "length (y @ ''}}'') \<le> length t2"
    proof (rule ccontr)
      assume "\<not> length (y @ ''}}'') \<le> length t2"
      then have lt: "length t2 < length (y @ ''}}'')" by simp
      have "(t2 @ ''{{'' @ u) ! length t2 = CHR ''{''" by simp
      moreover have "((y @ ''}}'') @ rest) ! length t2 = (y @ ''}}'') ! length t2"
        using lt by (metis nth_append)
      ultimately have "(y @ ''}}'') ! length t2 = CHR ''{''"
        using body by metis
      with lt have "CHR ''{'' \<in> set (y @ ''}}'')" by (metis nth_mem)
      with nb show False ..
    qed
    from body have "take (length (y @ ''}}'')) (t2 @ ''{{'' @ u) = y @ ''}}''"
      by simp
    with le have "take (length (y @ ''}}'')) t2 = y @ ''}}''" by simp
    then have "t2 = (y @ ''}}'') @ drop (length (y @ ''}}'')) t2"
      by (metis append_take_drop_id)
    then have "c # t = ''{{'' @ y @ ''}}'' @ drop (length (y @ ''}}'')) t2"
      using c Cons by simp
    with placeholderAt_placeholder [OF idy, of "drop (length (y @ ''}}'')) t2"] assms
    show False by simp
  qed
qed

text \<open>
  A text that ends where two opening braces begin is scanned on its own: no placeholder
  reaches over the braces.
\<close>

lemma scan_append:
  "scan off (pre @ ''{{'' @ u) = scan off pre @ scan (off + length pre) (''{{'' @ u)"
proof (induction off pre rule: scan.induct)
  case (1 off s)
  show ?case
  proof (cases s)
    case Nil
    then show ?thesis by (simp add: scan_Nil)
  next
    case (Cons c t)
    show ?thesis
    proof (cases "placeholderAt s")
      case None
      with Cons have "placeholderAt ((c # t) @ ''{{'' @ u) = None"
        by (simp only: placeholderAt_append_None)
      then have "scan off ((c # t) @ ''{{'' @ u) = Literal c # scan (off + 1) (t @ ''{{'' @ u)"
        using scan_literal [of c "t @ ''{{'' @ u" off] by simp
      moreover have "scan off (c # t) = Literal c # scan (off + 1) t"
        using None Cons by (simp add: scan_literal)
      moreover note "1.IH"(1) [OF Cons None]
      ultimately show ?thesis using Cons by simp
    next
      case (Some p)
      obtain y rest where p: "p = (y, rest)" by (cases p)
      from Some p Cons have s: "placeholderAt (c # t) = Some (y, rest)" by simp
      from placeholderAt_Some(1) [OF s] have len: "length (c # t) = length y + 4 + length rest"
        by simp
      from placeholderAt_append_Some [OF s, of "''{{'' @ u"]
      have "scan off ((c # t) @ ''{{'' @ u) =
          Placeholder y off # scan (off + length y + 4) (rest @ ''{{'' @ u)"
        using scan_placeholder [of c "t @ ''{{'' @ u" y "rest @ ''{{'' @ u" off] by simp
      moreover have "scan off (c # t) = Placeholder y off # scan (off + length y + 4) rest"
        using s by (rule scan_placeholder)
      moreover from "1.IH"(2) [OF Cons Some p [symmetric]]
      have "scan (off + length y + 4) (rest @ ''{{'' @ u) =
          scan (off + length y + 4) rest @
          scan (off + length y + 4 + length rest) (''{{'' @ u)" .
      moreover have "off + length y + 4 + length rest = off + length s"
        using len Cons by simp
      ultimately show ?thesis using Cons by simp
    qed
  qed
qed

text \<open>
  Every placeholder of a text is a token of its scan, at its offset, whatever stands
  before it.
\<close>

lemma scan_site:
  assumes "isIdentifier x"
  shows "scan off (pre @ ''{{'' @ x @ ''}}'' @ post) =
     scan off pre @ Placeholder x (off + length pre) #
       scan (off + length pre + length x + 4) post"
proof -
  have "scan (off + length pre) (''{{'' @ x @ ''}}'' @ post) =
      Placeholder x (off + length pre) # scan (off + length pre + length x + 4) post"
    using placeholderAt_placeholder [OF assms, of post]
      scan_placeholder [of "CHR ''{''" "CHR ''{'' # x @ ''}}'' @ post" x post "off + length pre"]
    by simp
  with scan_append [of off pre "x @ ''}}'' @ post"] show ?thesis by simp
qed

text \<open>Every placeholder token of a scan is a placeholder of the text, at its offset.\<close>

lemma scan_sound:
  "Placeholder y o' \<in> set (scan off s) \<Longrightarrow> off \<le> o' \<and> occursAt s (o' - off) y"
proof (induction off s rule: scan.induct)
  case (1 off s)
  show ?case
  proof (cases s)
    case Nil
    with "1.prems" show ?thesis by (simp add: scan_Nil)
  next
    case (Cons c t)
    show ?thesis
    proof (cases "placeholderAt s")
      case None
      with Cons "1.prems" have "Placeholder y o' \<in> set (scan (off + 1) t)"
        by (simp add: scan_literal)
      from "1.IH"(1) [OF Cons None this]
      have le: "off + 1 \<le> o'" and occ: "occursAt t (o' - (off + 1)) y" by simp_all
      from occ obtain pre post where "isIdentifier y"
        and t: "t = pre @ ''{{'' @ y @ ''}}'' @ post" and "length pre = o' - (off + 1)"
        by (auto simp: occursAt_def)
      with le Cons have "s = (c # pre) @ ''{{'' @ y @ ''}}'' @ post"
        and "length (c # pre) = o' - off" by simp_all
      with \<open>isIdentifier y\<close> le show ?thesis unfolding occursAt_def by fastforce
    next
      case (Some p)
      obtain x rest where p: "p = (x, rest)" by (cases p)
      from Some p Cons have s: "placeholderAt (c # t) = Some (x, rest)" by simp
      note eq = placeholderAt_Some(1) [OF s] and idx = placeholderAt_Some(2) [OF s]
      from "1.prems" Cons scan_placeholder [OF s, of off]
      consider "y = x" and "o' = off"
        | "Placeholder y o' \<in> set (scan (off + length x + 4) rest)" by auto
      then show ?thesis
      proof cases
        case 1
        with eq idx Cons show ?thesis
          unfolding occursAt_def by (auto intro: exI [of _ "[]"])
      next
        case 2
        from "1.IH"(2) [OF Cons Some p [symmetric] 2]
        have le: "off + length x + 4 \<le> o'"
          and occ: "occursAt rest (o' - (off + length x + 4)) y" by simp_all
        from occ obtain pre post where "isIdentifier y"
          and r: "rest = pre @ ''{{'' @ y @ ''}}'' @ post"
          and "length pre = o' - (off + length x + 4)"
          by (auto simp: occursAt_def)
        with le eq Cons have "s = (''{{'' @ x @ ''}}'' @ pre) @ ''{{'' @ y @ ''}}'' @ post"
          and "length (''{{'' @ x @ ''}}'' @ pre) = o' - off" by simp_all
        with \<open>isIdentifier y\<close> le show ?thesis unfolding occursAt_def by fastforce
      qed
    qed
  qed
qed

lemma scan_complete:
  assumes "occursAt t off x"
  shows "Placeholder x off \<in> set (scan 0 t)"
proof -
  from assms obtain pre post where "isIdentifier x"
    and "t = pre @ ''{{'' @ x @ ''}}'' @ post" and "length pre = off"
    by (auto simp: occursAt_def)
  with scan_site [of x 0 pre post] show ?thesis by simp
qed

subsection \<open>The substitution\<close>

lemma substitute_append:
  "substitute look fld (ts @ us) =
     (case substitute look fld ts of
        Inl e \<Rightarrow> Inl e
      | Inr a \<Rightarrow>
          (case substitute look fld us of Inl e \<Rightarrow> Inl e | Inr b \<Rightarrow> Inr (a @ b)))"
  by (induction look fld ts rule: substitute.induct) (auto split: sum.splits option.splits)

text \<open>
  What a field expands to depends neither on the field nor on the offset at which its
  scan starts: these only go into the error.
\<close>

lemma substitute_scan_offset:
  "substitute look fld (scan off s) = Inr out \<Longrightarrow> substitute look fld' (scan off' s) = Inr out"
proof (induction off s arbitrary: off' out rule: scan.induct)
  case (1 off s)
  show ?case
  proof (cases s)
    case Nil
    with "1.prems" show ?thesis by (simp add: scan_Nil)
  next
    case (Cons c t)
    show ?thesis
    proof (cases "placeholderAt s")
      case None
      with Cons have sc: "\<And>k. scan k s = Literal c # scan (k + 1) t"
        by (simp add: scan_literal)
      from "1.prems" obtain out' where "substitute look fld (scan (off + 1) t) = Inr out'"
        and "out = c # out'"
        unfolding sc by (auto split: sum.splits)
      with "1.IH"(1) [OF Cons None, of out' "off' + 1"] show ?thesis
        unfolding sc by simp
    next
      case (Some p)
      obtain x rest where p: "p = (x, rest)" by (cases p)
      from Some p Cons have sc: "\<And>k. scan k s = Placeholder x k # scan (k + length x + 4) rest"
        by (simp add: scan_placeholder)
      from "1.prems" obtain v out' where "look x = Some v"
        and "substitute look fld (scan (off + length x + 4) rest) = Inr out'"
        and "out = v @ out'"
        unfolding sc by (auto split: sum.splits option.splits)
      with "1.IH"(2) [OF Cons Some p [symmetric], of out' "off' + length x + 4"] show ?thesis
        unfolding sc by simp
    qed
  qed
qed

lemma substitute_Inl:
  "substitute look fld ts = Inl err \<Longrightarrow>
   field err = fld \<and> look (identifier' err) = None \<and>
   Placeholder (identifier' err) (offset err) \<in> set ts"
  by (induction look fld ts rule: substitute.induct) (auto split: sum.splits option.splits)

lemma substitute_Inr:
  "substitute look fld ts = Inr out \<Longrightarrow> Placeholder x off \<in> set ts \<Longrightarrow> look x \<noteq> None"
  by (induction look fld ts arbitrary: out rule: substitute.induct)
    (auto split: sum.splits option.splits)

subsection \<open>The fields of a request\<close>

lemma expandHeaders_Inr:
  "expandHeaders look hs = Inr hs' \<Longrightarrow>
   list_all2 (\<lambda>(k, t) (k', out). k' = k \<and> expand look (HeaderField k) t = Inr out) hs hs'"
proof (induction hs arbitrary: hs')
  case Nil
  then show ?case by simp
next
  case (Cons h hs)
  obtain k t where h: "h = (k, t)" by (cases h)
  from Cons.prems h obtain out rest where "expand look (HeaderField k) t = Inr out"
    and "expandHeaders look hs = Inr rest" and "hs' = (k, out) # rest"
    by (auto split: sum.splits)
  with Cons.IH [of rest] h show ?case by simp
qed

lemma expandHeaders_Inl:
  "expandHeaders look hs = Inl err \<Longrightarrow>
   \<exists>k t. (k, t) \<in> set hs \<and> expand look (HeaderField k) t = Inl err"
proof (induction hs)
  case Nil
  then show ?case by simp
next
  case (Cons h hs)
  obtain k t where h: "h = (k, t)" by (cases h)
  with Cons show ?case by (auto split: sum.splits)
qed

text \<open>
  A resolved request has the fields of the request, each with the expansion of its
  template.
\<close>

lemma resolve_Inr:
  assumes "resolve r pv env = Inr rr"
  shows "list_all2 (\<lambda>(fld, t) (fld', out). fld' = fld \<and> expand (lookupVar pv env) fld t = Inr out)
     (templatedFields r) (resolvedFields rr)"
proof -
  from assms obtain u hs b where u: "expand (lookupVar pv env) UrlField (HttpRequest.url r) = Inr u"
    and hs: "expandHeaders (lookupVar pv env) (HttpRequest.headers r) = Inr hs"
    and b: "expand (lookupVar pv env) BodyField (HttpRequest.body r) = Inr b"
    and rr: "rr = \<lparr>method' = HttpRequest.method' r, url = u, headers = hs, body = b\<rparr>"
    by (auto simp: resolve_def split: sum.splits)
  from expandHeaders_Inr [OF hs]
  have "list_all2 (\<lambda>(fld, t) (fld', out). fld' = fld \<and> expand (lookupVar pv env) fld t = Inr out)
     (map (\<lambda>(k, v). (HeaderField k, v)) (HttpRequest.headers r))
     (map (\<lambda>(k, v). (HeaderField k, v)) hs)"
    by (simp add: list_all2_map1 list_all2_map2 case_prod_unfold)
  with u b show ?thesis
    unfolding templatedFields_def resolvedFields_def rr
    by (simp add: list_all2_appendI)
qed

text \<open>
  A failed resolution names a placeholder token of a field of the request that the
  lookup does not resolve.
\<close>

lemma resolve_Inl:
  assumes "resolve r pv env = Inl err"
  shows "\<exists>t. (field err, t) \<in> set (templatedFields r) \<and>
      Placeholder (identifier' err) (offset err) \<in> set (scan 0 t) \<and>
      lookupVar pv env (identifier' err) = None"
proof -
  from assms consider
      "expand (lookupVar pv env) UrlField (HttpRequest.url r) = Inl err"
    | "expandHeaders (lookupVar pv env) (HttpRequest.headers r) = Inl err"
    | "expand (lookupVar pv env) BodyField (HttpRequest.body r) = Inl err"
    by (auto simp: resolve_def split: sum.splits)
  then show ?thesis
  proof cases
    case 1
    from substitute_Inl [OF 1 [unfolded expand_def]] show ?thesis
      by (auto simp: templatedFields_def)
  next
    case 2
    from expandHeaders_Inl [OF 2] obtain k t where "(k, t) \<in> set (HttpRequest.headers r)"
      and "expand (lookupVar pv env) (HeaderField k) t = Inl err" by blast
    with substitute_Inl [of "lookupVar pv env" "HeaderField k" "scan 0 t" err]
    show ?thesis
      by (force simp: templatedFields_def expand_def)
  next
    case 3
    from substitute_Inl [OF 3 [unfolded expand_def]] show ?thesis
      by (auto simp: templatedFields_def)
  qed
qed

text \<open>
  A resolution succeeds only if the lookup resolves every placeholder token of every
  field.
\<close>

lemma resolve_Inr_resolved:
  assumes "resolve r pv env = Inr rr" and "(fld, t) \<in> set (templatedFields r)"
    and "Placeholder x off \<in> set (scan 0 t)"
  shows "lookupVar pv env x \<noteq> None"
proof -
  from assms(2) obtain i where "i < length (templatedFields r)"
    and "templatedFields r ! i = (fld, t)" by (auto simp: in_set_conv_nth)
  with list_all2_nthD [OF resolve_Inr [OF assms(1)], of i]
  obtain out where "expand (lookupVar pv env) fld t = Inr out"
    by (auto simp: case_prod_unfold)
  from substitute_Inr [OF this [unfolded expand_def] assms(3)] show ?thesis .
qed

lemma lookupVar_None: "(lookupVar pv env x = None) = inNeitherScope pv env x"
  by (auto simp: lookupVar_def inNeitherScope_def split: option.splits)

subsection \<open>Precedence of the path variables\<close>

text \<open>
  The variables of the environment that the path variables also have are never read.
\<close>

lemma lookupVar_shadow:
  "lookupVar pv (Some (e\<lparr>Environment.variables :=
       filter (\<lambda>kv. map_of pv (fst kv) = None) (Environment.variables e)\<rparr>)) =
   lookupVar pv (Some e)"
proof
  fix y
  show "lookupVar pv (Some (e\<lparr>Environment.variables :=
       filter (\<lambda>kv. map_of pv (fst kv) = None) (Environment.variables e)\<rparr>)) y =
   lookupVar pv (Some e) y"
  proof (cases "map_of pv y")
    case None
    have "map_of (filter (\<lambda>kv. P (fst kv)) xs) y = map_of xs y" if "P y"
      for P and xs :: "(string \<times> string) list"
      using that by (induction xs) auto
    from this [of "\<lambda>k. map_of pv k = None", OF None] None
    show ?thesis by (simp add: lookupVar_def)
  next
    case (Some v)
    then show ?thesis by (simp add: lookupVar_def)
  qed
qed

text \<open>
  Claim C3: for every request and every placeholder of it, in the URL, in a header value
  or in the body and whatever stands before or after it, whose name \<open>x\<close> both the path
  variables (with the value \<open>v\<close>) and the active environment (with the value \<open>w\<close>)
  have, \<^verbatim>\<open>resolve\<close> substitutes \<open>v\<close>: if it resolves the request, the field is the
  expansion of the text before the placeholder, then \<open>v\<close>, then the expansion of the text
  after it; if it fails, the error does not name \<open>x\<close>; and the result is the same when
  the environment loses all the names that the path variables have.
\<close>

theorem pathVariables_precedence:
  assumes "map_of pv x = Some v" and "map_of (Environment.variables e) x = Some w"
    and "isIdentifier x" and "i < length (templatedFields r)"
    and "templatedFields r ! i = (fld, pre @ ''{{'' @ x @ ''}}'' @ post)"
  shows "(\<forall>rr. resolve r pv (Some e) = Inr rr \<longrightarrow>
            (\<exists>a b. expand (lookupVar pv (Some e)) fld pre = Inr a \<and>
                   expand (lookupVar pv (Some e)) fld post = Inr b \<and>
                   resolvedFields rr ! i = (fld, a @ v @ b))) \<and>
         (\<forall>err. resolve r pv (Some e) = Inl err \<longrightarrow> identifier' err \<noteq> x) \<and>
         resolve r pv (Some e) =
           resolve r pv (Some (e\<lparr>Environment.variables :=
             filter (\<lambda>kv. map_of pv (fst kv) = None) (Environment.variables e)\<rparr>))"
proof -
  let ?L = "lookupVar pv (Some e)"
  have look: "?L x = Some v"
    using assms(1) by (simp add: lookupVar_def)
  have success: "\<exists>a b. expand ?L fld pre = Inr a \<and> expand ?L fld post = Inr b \<and>
      resolvedFields rr ! i = (fld, a @ v @ b)"
    if rr: "resolve r pv (Some e) = Inr rr" for rr
  proof -
    from list_all2_nthD [OF resolve_Inr [OF rr] assms(4)] assms(5)
    obtain out where f: "resolvedFields rr ! i = (fld, out)"
      and out: "expand ?L fld (pre @ ''{{'' @ x @ ''}}'' @ post) = Inr out"
      by (cases "resolvedFields rr ! i") auto
    from out have "substitute ?L fld
        (scan 0 pre @ Placeholder x (length pre) # scan (length pre + length x + 4) post) =
        Inr out"
      unfolding expand_def using scan_site [OF assms(3), of 0 pre post] by simp
    then obtain a b where a: "substitute ?L fld (scan 0 pre) = Inr a"
      and b: "substitute ?L fld (scan (length pre + length x + 4) post) = Inr b"
      and "out = a @ v @ b"
      by (auto simp: substitute_append look split: sum.splits)
    with f substitute_scan_offset [OF b, of fld 0] show ?thesis
      by (simp add: expand_def)
  qed
  have failure: "identifier' err \<noteq> x" if "resolve r pv (Some e) = Inl err" for err
    using resolve_Inl [OF that] look by auto
  have "resolve r pv (Some e) =
       resolve r pv (Some (e\<lparr>Environment.variables :=
         filter (\<lambda>kv. map_of pv (fst kv) = None) (Environment.variables e)\<rparr>))"
    unfolding resolve_def lookupVar_shadow ..
  with success failure show ?thesis by blast
qed

text \<open>
  The first mock request against the first mock environment: with its own path variable
  \<^verbatim>\<open>userId\<close> the URL takes \<^verbatim>\<open>123\<close> and the header takes \<^verbatim>\<open>token\<close> from the environment;
  with a path variable \<^verbatim>\<open>token\<close> the header takes that and the URL takes \<^verbatim>\<open>userId\<close> from
  the environment. In a JSON body the braces of the JSON are literal and the placeholders
  between them are resolved, or reported with their offset.
\<close>

lemma resolve_mock_request:
  "resolve (hd (mockRequests ''1'')) [(''userId'', ''123'')] (Some (hd getMockEnvironments)) =
     Inr \<lparr>method' = ''GET'', url = ''https://api.example.com/users/123'',
          headers = [(''Authorization'', ''Bearer dev-token-123''),
                     (''Content-Type'', ''application/json'')],
          body = []\<rparr>"
  by code_simp

lemma resolve_path_token:
  "resolve (hd (mockRequests ''1'')) [(''token'', ''path-token'')] (Some (hd getMockEnvironments)) =
     Inr \<lparr>method' = ''GET'', url = ''https://api.example.com/users/1'',
          headers = [(''Authorization'', ''Bearer path-token''),
                     (''Content-Type'', ''application/json'')],
          body = []\<rparr>"
  by code_simp

lemma resolve_json_body:
  \<open>resolve jsonBody [(''userId'', ''123''), (''missing'', ''m'')] (Some (hd getMockEnvironments)) =
     Inr \<lparr>method' = ''GET'', url = ''https://api.example.com/users/123'',
          headers = [(''Authorization'', ''Bearer dev-token-123''),
                     (''Content-Type'', ''application/json'')],
          body = ''{"u": "123", "m": "m"}''\<rparr> \<and>
   resolve jsonBody [(''userId'', ''123'')] (Some (hd getMockEnvironments)) =
     Inl \<lparr>field = BodyField, identifier' = ''missing'', offset = 26\<rparr>\<close>
  by code_simp

text \<open>
  Claim C3 on the mock data, for the header \<^verbatim>\<open>Authorization: Bearer {{token}}\<close> of the
  first mock request: the path variables have \<^verbatim>\<open>token\<close> with the value \<^verbatim>\<open>path-token\<close>, the
  first mock environment has it with the value \<^verbatim>\<open>dev-token-123\<close>, and the header
  resolves to \<^verbatim>\<open>Bearer path-token\<close>.
\<close>

theorem pathVariables_precedence_witness:
  "map_of [(''token'', ''path-token'')] ''token'' = Some ''path-token'' \<and>
   map_of (Environment.variables (hd getMockEnvironments)) ''token'' = Some ''dev-token-123'' \<and>
   isIdentifier ''token'' \<and>
   1 < length (templatedFields (hd (mockRequests ''1''))) \<and>
   templatedFields (hd (mockRequests ''1'')) ! 1 =
     (HeaderField ''Authorization'', ''Bearer '' @ ''{{'' @ ''token'' @ ''}}'' @ []) \<and>
   (\<exists>rr. resolve (hd (mockRequests ''1'')) [(''token'', ''path-token'')]
            (Some (hd getMockEnvironments)) = Inr rr \<and>
      resolvedFields rr ! 1 = (HeaderField ''Authorization'', ''Bearer path-token''))"
proof -
  let ?pv = "[(''token'', ''path-token'')]" and ?e = "hd getMockEnvironments"
    and ?r = "hd (mockRequests ''1'')"
  have h1: "map_of ?pv ''token'' = Some ''path-token''" by simp
  have h2: "map_of (Environment.variables ?e) ''token'' = Some ''dev-token-123''"
    by (simp add: getMockEnvironments_def)
  have h3: "isIdentifier ''token''"
    by (simp add: isIdentifier_def isIdentChar_def isIdentStart_def)
  have h4: "1 < length (templatedFields ?r)"
    by (simp add: templatedFields_def mockRequests_def)
  have h5: "templatedFields ?r ! 1 =
      (HeaderField ''Authorization'', ''Bearer '' @ ''{{'' @ ''token'' @ ''}}'' @ [])"
    by (simp add: templatedFields_def mockRequests_def)
  note t = pathVariables_precedence [OF h1 h2 h3 h4 h5]
  obtain rr where rr: "resolve ?r ?pv (Some ?e) = Inr rr"
    using resolve_path_token by blast
  with t obtain a b
    where a: "expand (lookupVar ?pv (Some ?e)) (HeaderField ''Authorization'') ''Bearer '' = Inr a"
      and b: "expand (lookupVar ?pv (Some ?e)) (HeaderField ''Authorization'') [] = Inr b"
      and f: "resolvedFields rr ! 1 = (HeaderField ''Authorization'', a @ ''path-token'' @ b)"
    by blast
  from a have "a = ''Bearer ''"
    by (simp add: expand_def scan.simps placeholderAt_def)
  moreover from b have "b = []" by (simp add: expand_def scan_Nil)
  ultimately have "resolvedFields rr ! 1 = (HeaderField ''Authorization'', ''Bearer path-token'')"
    using f by simp
  with h1 h2 h3 h4 h5 rr show ?thesis by blast
qed

subsection \<open>Unresolved placeholders\<close>

text \<open>
  Claim C4 says that for every placeholder whose identifier is in neither scope the
  error names that identifier. One error has one identifier, so this fails for a request
  with two such identifiers: with the URL \<^verbatim>\<open>{{a}}/{{b}}\<close>, the path variable \<^verbatim>\<open>token\<close> and
  no environment, \<^verbatim>\<open>a\<close> and \<^verbatim>\<open>b\<close> are placeholders in neither scope, and the error names
  \<^verbatim>\<open>a\<close>, not \<^verbatim>\<open>b\<close>.
\<close>

theorem names_every_unresolved_counterexample:
  "hasPlaceholder twoMissing UrlField 0 ''a'' \<and>
   hasPlaceholder twoMissing UrlField 6 ''b'' \<and>
   inNeitherScope [(''token'', ''t'')] None ''a'' \<and>
   inNeitherScope [(''token'', ''t'')] None ''b'' \<and>
   resolve twoMissing [(''token'', ''t'')] None =
     Inl \<lparr>field = UrlField, identifier' = ''a'', offset = 0\<rparr> \<and>
   identifier' \<lparr>field = UrlField, identifier' = ''a'', offset = 0\<rparr> \<noteq> ''b''"
proof -
  have u: "(UrlField, ''{{a}}/{{b}}'') \<in> set (templatedFields twoMissing)"
    by (simp add: templatedFields_def twoMissing_def)
  have ida: "isIdentifier ''a''" and idb: "isIdentifier ''b''"
    by (simp_all add: isIdentifier_def isIdentChar_def isIdentStart_def)
  have "occursAt ''{{a}}/{{b}}'' 0 ''a''"
    unfolding occursAt_def using ida
    by (intro conjI exI [of _ "[]"] exI [of _ "''/{{b}}''"]) simp_all
  moreover have "occursAt ''{{a}}/{{b}}'' 6 ''b''"
    unfolding occursAt_def using idb
    by (intro conjI exI [of _ "''{{a}}/''"] exI [of _ "[]"]) simp_all
  ultimately have "hasPlaceholder twoMissing UrlField 0 ''a''"
    and "hasPlaceholder twoMissing UrlField 6 ''b''"
    unfolding hasPlaceholder_def using u by blast+
  moreover have "inNeitherScope [(''token'', ''t'')] None ''a''"
    and "inNeitherScope [(''token'', ''t'')] None ''b''"
    by (simp_all add: inNeitherScope_def)
  moreover have "resolve twoMissing [(''token'', ''t'')] None =
     Inl \<lparr>field = UrlField, identifier' = ''a'', offset = 0\<rparr>"
    by code_simp
  ultimately show ?thesis by simp
qed

text \<open>
  Claim C4, amended: when a request has a placeholder, in any field and at any offset,
  whose identifier is in neither scope, \<^verbatim>\<open>resolve\<close> gives a \<^verbatim>\<open>ResolutionError\<close> and no
  resolved request, so nothing is substituted for the placeholder and it is not left in
  place. The error names a placeholder of the request, by its field, its offset and its
  identifier, whose identifier is in neither scope; it names the given identifier
  whenever the request has no other identifier in neither scope.
\<close>

theorem unresolved_placeholder_fails:
  assumes "hasPlaceholder r fld off x" and "inNeitherScope pv env x"
  shows "\<exists>err. resolve r pv env = Inl err \<and>
      hasPlaceholder r (field err) (offset err) (identifier' err) \<and>
      inNeitherScope pv env (identifier' err) \<and>
      ((\<forall>fld' off' y. hasPlaceholder r fld' off' y \<and> inNeitherScope pv env y \<longrightarrow> y = x) \<longrightarrow>
         identifier' err = x)"
proof -
  from assms(1) obtain t where t: "(fld, t) \<in> set (templatedFields r)"
    and occ: "occursAt t off x" by (auto simp: hasPlaceholder_def)
  have "\<nexists>rr. resolve r pv env = Inr rr"
  proof
    assume "\<exists>rr. resolve r pv env = Inr rr"
    then obtain rr where "resolve r pv env = Inr rr" ..
    from resolve_Inr_resolved [OF this t scan_complete [OF occ]] assms(2)
    show False by (simp add: lookupVar_None)
  qed
  then obtain err where err: "resolve r pv env = Inl err"
    by (cases "resolve r pv env") auto
  from resolve_Inl [OF err] obtain t' where t': "(field err, t') \<in> set (templatedFields r)"
    and tok: "Placeholder (identifier' err) (offset err) \<in> set (scan 0 t')"
    and un: "lookupVar pv env (identifier' err) = None" by blast
  from scan_sound [OF tok] have "occursAt t' (offset err) (identifier' err)" by simp
  with t' have has: "hasPlaceholder r (field err) (offset err) (identifier' err)"
    by (auto simp: hasPlaceholder_def)
  from un have nei: "inNeitherScope pv env (identifier' err)"
    by (simp add: lookupVar_None)
  from err has nei show ?thesis by blast
qed

text \<open>
  The amended claim C4 at the request with the URL \<^verbatim>\<open>{{a}}/{{b}}\<close>, for its placeholder
  \<^verbatim>\<open>b\<close>, with no path variables and the first mock environment active, which has
  neither \<^verbatim>\<open>a\<close> nor \<^verbatim>\<open>b\<close>.
\<close>

theorem unresolved_placeholder_fails_witness:
  "hasPlaceholder twoMissing UrlField 6 ''b'' \<and>
   inNeitherScope [] (Some (hd getMockEnvironments)) ''b'' \<and>
   (\<exists>err. resolve twoMissing [] (Some (hd getMockEnvironments)) = Inl err \<and>
      hasPlaceholder twoMissing (field err) (offset err) (identifier' err) \<and>
      inNeitherScope [] (Some (hd getMockEnvironments)) (identifier' err))"
proof -
  have u: "(UrlField, ''{{a}}/{{b}}'') \<in> set (templatedFields twoMissing)"
    by (simp add: templatedFields_def twoMissing_def)
  have "isIdentifier ''b''"
    by (simp add: isIdentifier_def isIdentChar_def isIdentStart_def)
  then have "occursAt ''{{a}}/{{b}}'' 6 ''b''"
    unfolding occursAt_def
    by (intro conjI exI [of _ "''{{a}}/''"] exI [of _ "[]"]) simp_all
  with u have h1: "hasPlaceholder twoMissing UrlField 6 ''b''"
    unfolding hasPlaceholder_def by blast
  have h2: "inNeitherScope [] (Some (hd getMockEnvironments)) ''b''"
    by (simp add: inNeitherScope_def getMockEnvironments_def)
  from unresolved_placeholder_fails [OF h1 h2] h1 h2 show ?thesis by blast
qed

end
